theory Spec2Isabelle
  imports Main
begin

section \<open>JavaScript values and objects\<close>

text \<open>
  The dispatcher of \<^verbatim>\<open>knock-knock.js\<close> is dynamically typed: names, flags, users and
  errors are arbitrary JavaScript values, and the code branches on their truthiness and
  on \<^verbatim>\<open>typeof\<close>. Values are modelled by \<open>jsval\<close>. Numbers are integers (no \<^verbatim>\<open>NaN\<close>,
  no fractions). Every object is a reference \<open>JRef\<close> into a store, every function a
  reference \<open>JFun\<close> into a table of behaviours, so that \<^verbatim>\<open>===\<close> on them is identity.
\<close>

datatype jsval =
    Undefined
  | Null
  | JBool bool
  | JNum int
  | JStr string
  | JFun nat
  | JRef nat

text \<open>
  What a \<^verbatim>\<open>throw\<close> carries: a value of the program, or one of the two errors the
  runtime raises itself (\<^verbatim>\<open>assert\<close> failing, a property read on \<^verbatim>\<open>undefined\<close>/\<^verbatim>\<open>null\<close>
  or a call of a non-function).
\<close>

datatype thrown = AssertionError | TypeError | Value jsval

datatype 'a completion = Throw thrown | Return 'a

fun truthy :: "jsval \<Rightarrow> bool" where
  "truthy Undefined = False"
| "truthy Null = False"
| "truthy (JBool b) = b"
| "truthy (JNum n) = (n \<noteq> 0)"
| "truthy (JStr s) = (s \<noteq> [])"
| "truthy (JFun f) = True"
| "truthy (JRef r) = True"

text \<open>\<^verbatim>\<open>a || b\<close> on values whose evaluation has no effect.\<close>

definition js_or :: "jsval \<Rightarrow> jsval \<Rightarrow> jsval" where
  "js_or a b = (if truthy a then a else b)"

text \<open>\<^verbatim>\<open>typeof v === 'function'\<close>, \<^verbatim>\<open>typeof v === 'object'\<close>, \<^verbatim>\<open>typeof v === 'string'\<close>.\<close>

fun typeof_function :: "jsval \<Rightarrow> bool" where
  "typeof_function (JFun f) = True"
| "typeof_function v = False"

fun typeof_object :: "jsval \<Rightarrow> bool" where
  "typeof_object Null = True"
| "typeof_object (JRef r) = True"
| "typeof_object v = False"

fun typeof_string :: "jsval \<Rightarrow> bool" where
  "typeof_string (JStr s) = True"
| "typeof_string v = False"

text \<open>
  An object has string-keyed properties (an absent property reads \<^verbatim>\<open>undefined\<close>), the
  property keyed by the symbol \<^verbatim>\<open>KnockKnock.symbolDefault\<close>, and its class.

  Modelled from the spec: the class \<^verbatim>\<open>UnauthorizedError\<close> (file
  \<^verbatim>\<open>./UnauthorizedError\<close>, not among the sources) is a typed failure carrier with a
  human-readable message, the schema involved and an optional wrapped cause, in the
  argument order of the calls \<^verbatim>\<open>new UnauthorizedError(message, schema, cause)\<close>.
\<close>

datatype kind = Plain | Unauthorized string jsval "thrown option"

record obj =
  props :: "string \<Rightarrow> jsval"
  symbolDefault :: jsval
  kind :: kind

record heap =
  store :: "nat \<Rightarrow> obj"
  fresh :: nat

definition alloc :: "heap \<Rightarrow> obj \<Rightarrow> nat \<times> heap" where
  "alloc h ob = (fresh h, h\<lparr>store := (store h)(fresh h := ob), fresh := Suc (fresh h)\<rparr>)"

definition new_UnauthorizedError :: "string \<Rightarrow> jsval \<Rightarrow> thrown option \<Rightarrow> obj" where
  "new_UnauthorizedError message schema cause =
     \<lparr>props = (\<lambda>p. Undefined), symbolDefault = Undefined,
      kind = Unauthorized message schema cause\<rparr>"

text \<open>\<^verbatim>\<open>err instanceof UnauthorizedError\<close>\<close>

fun instanceof_UnauthorizedError :: "heap \<Rightarrow> thrown \<Rightarrow> bool" where
  "instanceof_UnauthorizedError h (Value (JRef r)) =
     (case kind (store h r) of Unauthorized m s c \<Rightarrow> True | Plain \<Rightarrow> False)"
| "instanceof_UnauthorizedError h e = False"

text \<open>
  \<^verbatim>\<open>v[p]\<close>: a \<^verbatim>\<open>TypeError\<close> on \<^verbatim>\<open>undefined\<close> and \<^verbatim>\<open>null\<close>, the stored property of an
  object, and \<^verbatim>\<open>undefined\<close> on a primitive or a function (none of the property names the
  dispatcher reads is built into them).
\<close>

fun getprop :: "heap \<Rightarrow> jsval \<Rightarrow> string \<Rightarrow> thrown + jsval" where
  "getprop h Undefined p = Inl TypeError"
| "getprop h Null p = Inl TypeError"
| "getprop h (JRef r) p = Inr (props (store h r) p)"
| "getprop h v p = Inr Undefined"

definition setprop :: "heap \<Rightarrow> nat \<Rightarrow> string \<Rightarrow> jsval \<Rightarrow> heap" where
  "setprop h r p v = h\<lparr>store := (store h)(r := (store h r)\<lparr>props := (props (store h r))(p := v)\<rparr>)\<rparr>"

section \<open>The schema capability model\<close>

datatype cap = Login | Auth

text \<open>\<^verbatim>\<open>schemaInterface.interface\<close>: the required method of each capability type.\<close>

fun interface :: "cap \<Rightarrow> string" where
  "interface Login = ''knockLogin''"
| "interface Auth = ''knockAuth''"

text \<open>\<^verbatim>\<open>schemaInterface.lazy\<close>: the methods exposed as middleware factories.\<close>

fun lazy :: "cap \<Rightarrow> string list" where
  "lazy Login = [''login'', ''oauthLogin'', ''oauthCallback'']"
| "lazy Auth = [''auth'', ''revoke'']"

definition hasRequiredFunction :: "heap \<Rightarrow> jsval \<Rightarrow> cap \<Rightarrow> thrown + bool" where
  "hasRequiredFunction h schema type =
     (case getprop h schema (interface type) of
        Inl e \<Rightarrow> Inl e
      | Inr v \<Rightarrow> Inr (typeof_function v))"

section \<open>Options and the registry\<close>

text \<open>
  The option object of the JSDoc type \<^verbatim>\<open>KnockKnock~Option\<close>; an omitted field reads
  \<^verbatim>\<open>undefined\<close>. The constructor's argument is such an object or is omitted (\<open>None\<close>).
  \<open>normalizeOption\<close> writes into the object it is given; the object is taken to be a
  plain extensible one, on which each write takes effect (on a frozen object, or on a
  primitive passed in place of the object, the writes of this sloppy-mode function are
  dropped silently: such arguments are outside the record type).
\<close>

record knock_option =
  throwUnauthorizedError :: jsval
  globalLoginResponse :: jsval
  globalAuthResponse :: jsval

definition normalizeOption :: "knock_option option \<Rightarrow> knock_option" where
  "normalizeOption option =
     (let option = (case option of
                      Some ob \<Rightarrow> ob
                    | None \<Rightarrow> \<lparr>throwUnauthorizedError = Undefined,
                               globalLoginResponse = Undefined,
                               globalAuthResponse = Undefined\<rparr>);
          option = option\<lparr>throwUnauthorizedError :=
                     js_or (throwUnauthorizedError option) (JBool True)\<rparr>;
          option = option\<lparr>globalLoginResponse :=
                     (if truthy (globalLoginResponse option)
                         \<and> typeof_function (globalLoginResponse option)
                      then globalLoginResponse option else Undefined)\<rparr>;
          option = option\<lparr>globalAuthResponse :=
                     (if truthy (globalAuthResponse option)
                         \<and> typeof_function (globalAuthResponse option)
                      then globalAuthResponse option else Undefined)\<rparr>
      in option)"

text \<open>
  \<^verbatim>\<open>this.schemas\<close> is a JavaScript \<^verbatim>\<open>Map\<close>: an insertion-ordered list of entries with
  distinct keys. \<^verbatim>\<open>set\<close> on a present key replaces the value where the entry is, on a
  new key appends; \<^verbatim>\<open>get\<close> on an absent key is \<^verbatim>\<open>undefined\<close>. The values are object
  references, since \<^verbatim>\<open>enable\<close> stores only what passed its \<^verbatim>\<open>typeof schema === 'object'\<close>
  assertion.
\<close>

type_synonym schema_map = "(jsval \<times> nat) list"

fun Map_set :: "schema_map \<Rightarrow> jsval \<Rightarrow> nat \<Rightarrow> schema_map" where
  "Map_set [] k v = [(k, v)]"
| "Map_set ((k', v') # m) k v = (if k' = k then (k, v) # m else (k', v') # Map_set m k v)"

fun Map_get :: "schema_map \<Rightarrow> jsval \<Rightarrow> jsval" where
  "Map_get [] k = Undefined"
| "Map_get ((k', v') # m) k = (if k' = k then JRef v' else Map_get m k)"

definition Map_delete :: "schema_map \<Rightarrow> jsval \<Rightarrow> schema_map" where
  "Map_delete m k = filter (\<lambda>e. fst e \<noteq> k) m"

definition Map_values :: "schema_map \<Rightarrow> nat list" where
  "Map_values m = map snd m"

text \<open>
  A \<^verbatim>\<open>KnockKnock\<close> instance. \<^verbatim>\<open>defaultSchemasCache\<close> is an object keyed by the
  capability type; \<^verbatim>\<open>{}\<close> reads \<^verbatim>\<open>undefined\<close> everywhere.
\<close>

record knockknock =
  schemas :: schema_map
  defaultSchemasCache :: "cap \<Rightarrow> jsval"
  option :: knock_option

definition constructor :: "knock_option option \<Rightarrow> knockknock" where
  "constructor opt =
     \<lparr>schemas = [], defaultSchemasCache = (\<lambda>t. Undefined), option = normalizeOption opt\<rparr>"

text \<open>
  \<^verbatim>\<open>enable(name, schema, setDefault = false, verifyLogin = null)\<close>. A default parameter
  takes its default when the argument is \<^verbatim>\<open>undefined\<close>. The method is strict-mode code
  (a class body): writing \<^verbatim>\<open>schema.name\<close> throws a \<^verbatim>\<open>TypeError\<close> on \<^verbatim>\<open>undefined\<close>,
  \<^verbatim>\<open>null\<close>, a primitive and a function (whose \<^verbatim>\<open>name\<close> is read-only); reading it from
  a primitive gives \<^verbatim>\<open>undefined\<close>, and from a function a string, after which one of the
  two assertions fails.
\<close>

definition enable ::
  "heap \<Rightarrow> knockknock \<Rightarrow> jsval \<Rightarrow> jsval \<Rightarrow> jsval \<Rightarrow> jsval \<Rightarrow> thrown + (heap \<times> knockknock)" where
  "enable h kk name schema setDefault verifyLogin =
     (let setDefault = (if setDefault = Undefined then JBool False else setDefault);
          verifyLogin = (if verifyLogin = Undefined then Null else verifyLogin)
      in case schema of
           JRef r \<Rightarrow>
             (let (h1, name1) =
                    (if truthy name \<and> typeof_string name
                     then (setprop h r ''name'' name, name)
                     else (h, props (store h r) ''name''))
              in if \<not> truthy name1 then Inl AssertionError
                 else
                   (let h2 = h1\<lparr>store := (store h1)(r := (store h1 r)\<lparr>symbolDefault := setDefault\<rparr>)\<rparr>;
                        h3 = (if truthy verifyLogin \<and> typeof_function verifyLogin
                              then setprop h2 r ''verify'' verifyLogin else h2)
                    in Inr (h3, kk\<lparr>schemas := Map_set (schemas kk) name1 r,
                                    defaultSchemasCache := (\<lambda>t. Undefined)\<rparr>)))
         | Undefined \<Rightarrow> Inl TypeError
         | Null \<Rightarrow> Inl TypeError
         | _ \<Rightarrow> (if truthy name \<and> typeof_string name then Inl TypeError
                 else Inl AssertionError))"

text \<open>The name under which \<^verbatim>\<open>enable(name, schema, ...)\<close> stores an object (lines 130, 131).\<close>

definition effective_name :: "heap \<Rightarrow> jsval \<Rightarrow> nat \<Rightarrow> jsval" where
  "effective_name h name r =
     (if truthy name \<and> typeof_string name then name else props (store h r) ''name'')"

definition disable :: "knockknock \<Rightarrow> jsval \<Rightarrow> thrown + knockknock" where
  "disable kk name =
     (if \<not> truthy name then Inl AssertionError
      else Inr (kk\<lparr>schemas := Map_delete (schemas kk) name,
                   defaultSchemasCache := (\<lambda>t. Undefined)\<rparr>))"

text \<open>
  The getter \<^verbatim>\<open>valid\<close>. \<^verbatim>\<open>hasRequiredFunction\<close> cannot throw on a stored schema, which
  is an object.
\<close>

definition valid :: "heap \<Rightarrow> knockknock \<Rightarrow> bool" where
  "valid h kk =
     (if \<not> (length (schemas kk) > 0) then False
      else list_ex (\<lambda>i. hasRequiredFunction h (JRef i) Login = Inr True)
             (Map_values (schemas kk)))"

text \<open>
  \<^verbatim>\<open>_preferSchema(name, type = null)\<close>, with \<open>None\<close> for a \<^verbatim>\<open>null\<close> type. The result is
  what the call returns or throws, and the instance with its cache as the call left it.
\<close>

definition find_default :: "heap \<Rightarrow> nat list \<Rightarrow> cap \<Rightarrow> jsval" where
  "find_default h vs type =
     (case find (\<lambda>i. truthy (symbolDefault (store h i))
                      \<and> hasRequiredFunction h (JRef i) type = Inr True) vs of
        Some i \<Rightarrow> JRef i
      | None \<Rightarrow> Undefined)"

definition preferSchema ::
  "heap \<Rightarrow> knockknock \<Rightarrow> jsval \<Rightarrow> cap option \<Rightarrow> (thrown + jsval) \<times> knockknock" where
  "preferSchema h kk name type =
     (if truthy name then
        (let res = Map_get (schemas kk) name
         in case type of
              Some t \<Rightarrow>
                (case hasRequiredFunction h res t of
                   Inl e \<Rightarrow> (Inl e, kk)
                 | Inr b \<Rightarrow> (Inr (if b then res else Undefined), kk))
            | None \<Rightarrow> (Inr res, kk))
      else
        (case type of
           Some t \<Rightarrow>
             (let kk1 = (if \<not> truthy (defaultSchemasCache kk t)
                         then kk\<lparr>defaultSchemasCache := (defaultSchemasCache kk)
                                   (t := find_default h (Map_values (schemas kk)) t)\<rparr>
                         else kk)
              in (Inr (defaultSchemasCache kk1 t), kk1))
         | None \<Rightarrow> (Inr Null, kk)))"

section \<open>Requests, responses and schema methods\<close>

text \<open>
  The request exposes four key-value sources (an absent key reads \<^verbatim>\<open>undefined\<close>) and
  carries the two outcome fields; the response exposes its \<^verbatim>\<open>headersSent\<close> signal.
\<close>

record request =
  params :: "string \<Rightarrow> jsval"
  query :: "string \<Rightarrow> jsval"
  cookies :: "string \<Rightarrow> jsval"
  body :: "string \<Rightarrow> jsval"
  user :: jsval
  unauthorizedError :: jsval

record response =
  headersSent :: bool

definition getParamFromReq :: "request \<Rightarrow> string \<Rightarrow> jsval" where
  "getParamFromReq req param =
     js_or (js_or (js_or (params req param) (query req param)) (cookies req param))
       (body req param)"

text \<open>
  A function of a schema, or a global response hook, is code outside the dispatcher. It
  is called with the schema (as \<^verbatim>\<open>this\<close> for a method, as first argument for a global
  hook) and the pair \<^verbatim>\<open>(req, res)\<close>; it may read and change the objects of the store,
  the request and the response, and it returns a value or throws. An \<^verbatim>\<open>await\<close> of its
  result is the same completion. The table \<open>F\<close> maps a function reference to its
  behaviour.
\<close>

type_synonym env = "heap \<times> request \<times> response"

type_synonym behaviour = "jsval \<Rightarrow> env \<Rightarrow> jsval completion \<times> env"

text \<open>\<^verbatim>\<open>await schema[m](req, res)\<close>\<close>

definition callMethod ::
  "(nat \<Rightarrow> behaviour) \<Rightarrow> jsval \<Rightarrow> string \<Rightarrow> env \<Rightarrow> jsval completion \<times> env" where
  "callMethod F schema m e =
     (case getprop (fst e) schema m of
        Inl x \<Rightarrow> (Throw x, e)
      | Inr (JFun f) \<Rightarrow> F f schema e
      | Inr v \<Rightarrow> (Throw TypeError, e))"

text \<open>\<^verbatim>\<open>if (typeof (schema[m]) === 'function') { await schema[m](req, res); }\<close>\<close>

definition callIfFunction ::
  "(nat \<Rightarrow> behaviour) \<Rightarrow> jsval \<Rightarrow> string \<Rightarrow> env \<Rightarrow> jsval completion \<times> env" where
  "callIfFunction F schema m e =
     (case getprop (fst e) schema m of
        Inl x \<Rightarrow> (Throw x, e)
      | Inr (JFun f) \<Rightarrow> F f schema e
      | Inr v \<Rightarrow> (Return Undefined, e))"

text \<open>\<^verbatim>\<open>if (hook) { await hook(schema, req, res); }\<close> for a global response hook.\<close>

definition callGlobal ::
  "(nat \<Rightarrow> behaviour) \<Rightarrow> jsval \<Rightarrow> jsval \<Rightarrow> env \<Rightarrow> jsval completion \<times> env" where
  "callGlobal F hook schema e =
     (if truthy hook then
        (case hook of
           JFun f \<Rightarrow> F f schema e
         | _ \<Rightarrow> (Throw TypeError, e))
      else (Return Undefined, e))"

section \<open>The execution engine\<close>

text \<open>The inner function \<^verbatim>\<open>setUser\<close> of \<^verbatim>\<open>_manual\<close>; \<^verbatim>\<open>{user: user}\<close> is a new object.\<close>

definition setUser :: "heap \<Rightarrow> request \<Rightarrow> jsval \<Rightarrow> jsval \<times> heap \<times> request" where
  "setUser h req u =
     (if truthy u then
        (let (u1, h1) =
               (if \<not> typeof_object u
                then (let (p, h') = alloc h \<lparr>props = (\<lambda>k. Undefined)(''user'' := u),
                                             symbolDefault = Undefined, kind = Plain\<rparr>
                      in (JRef p, h'))
                else (u, h))
         in (u1, h1, req\<lparr>user := u1\<rparr>))
      else (u, h, req))"

text \<open>
  The statement \<^verbatim>\<open>setUser(await schema[schemaInterface.interface[type]](req, res) || req.user)\<close>
  that opens both \<^verbatim>\<open>login\<close> (after its assertion) and \<^verbatim>\<open>auth\<close>; \<^verbatim>\<open>req.user\<close> is read
  after the call.
\<close>

definition requiredCall ::
  "(nat \<Rightarrow> behaviour) \<Rightarrow> jsval \<Rightarrow> cap \<Rightarrow> env \<Rightarrow> jsval completion \<times> env" where
  "requiredCall F schema type e =
     (case callMethod F schema (interface type) e of
        (Throw x, e1) \<Rightarrow> (Throw x, e1)
      | (Return r, (h1, req1, res1)) \<Rightarrow>
          (let (u, h2, req2) = setUser h1 req1 (js_or r (user req1))
           in (Return u, (h2, req2, res1))))"

text \<open>\<^verbatim>\<open>throw new UnauthorizedError("don't end res in schema", schema)\<close>\<close>

definition throwEnded ::
  "knockknock \<Rightarrow> jsval \<Rightarrow> env \<Rightarrow> jsval completion \<times> knockknock \<times> env" where
  "throwEnded kk schema e =
     (case e of (h, req, res) \<Rightarrow>
        (let (p, h1) = alloc h (new_UnauthorizedError ''don't end res in schema'' schema None)
         in (Throw (Value (JRef p)), kk, (h1, req, res))))"

text \<open>The companion auth schema of a login and its \<^verbatim>\<open>create\<close> hook (lines 228 to 233).\<close>

definition login_create ::
  "(nat \<Rightarrow> behaviour) \<Rightarrow> knockknock \<Rightarrow> jsval \<Rightarrow> env \<Rightarrow> jsval completion \<times> knockknock \<times> env" where
  "login_create F kk u e =
     (case e of (h, req, res) \<Rightarrow>
        if truthy u \<and> \<not> truthy (unauthorizedError req) then
          (case preferSchema h kk (getParamFromReq req (interface Auth)) (Some Auth) of
             (Inl x, kk1) \<Rightarrow> (Throw x, kk1, e)
           | (Inr a, kk1) \<Rightarrow>
               if truthy a \<and> (case getprop h a ''create'' of
                                 Inr v \<Rightarrow> typeof_function v | Inl x \<Rightarrow> False)
               then (case callMethod F a ''create'' e of
                       (c, e1) \<Rightarrow> (c, kk1, e1))
               else (Return Undefined, kk1, e))
        else (Return Undefined, kk, e))"

text \<open>What \<^verbatim>\<open>login\<close> does after its first statement (lines 225 to 240).\<close>

definition login_rest ::
  "(nat \<Rightarrow> behaviour) \<Rightarrow> knockknock \<Rightarrow> jsval \<Rightarrow> jsval \<Rightarrow> env \<Rightarrow>
     jsval completion \<times> knockknock \<times> env" where
  "login_rest F kk schema u e =
     (if headersSent (snd (snd e)) then throwEnded kk schema e
      else
        (case login_create F kk u e of
           (Throw x, kk1, e1) \<Rightarrow> (Throw x, kk1, e1)
         | (Return v, kk1, e1) \<Rightarrow>
             (case callIfFunction F schema ''loginResponse'' e1 of
                (Throw x, e2) \<Rightarrow> (Throw x, kk1, e2)
              | (Return v, e2) \<Rightarrow>
                  (case callGlobal F (globalLoginResponse (option kk1)) schema e2 of
                     (Throw x, e3) \<Rightarrow> (Throw x, kk1, e3)
                   | (Return v, e3) \<Rightarrow> (Return Undefined, kk1, e3)))))"

definition login ::
  "(nat \<Rightarrow> behaviour) \<Rightarrow> knockknock \<Rightarrow> jsval \<Rightarrow> env \<Rightarrow> jsval completion \<times> knockknock \<times> env" where
  "login F kk schema e =
     (if \<not> valid (fst e) kk then (Throw AssertionError, kk, e)
      else
        (case requiredCall F schema Login e of
           (Throw x, e1) \<Rightarrow> (Throw x, kk, e1)
         | (Return u, e1) \<Rightarrow> login_rest F kk schema u e1))"

definition auth ::
  "(nat \<Rightarrow> behaviour) \<Rightarrow> knockknock \<Rightarrow> jsval \<Rightarrow> env \<Rightarrow> jsval completion \<times> knockknock \<times> env" where
  "auth F kk schema e =
     (case requiredCall F schema Auth e of
        (Throw x, e1) \<Rightarrow> (Throw x, kk, e1)
      | (Return u, e1) \<Rightarrow>
          (if headersSent (snd (snd e1)) then throwEnded kk schema e1
           else
             (case callIfFunction F schema ''authResponse'' e1 of
                (Throw x, e2) \<Rightarrow> (Throw x, kk, e2)
              | (Return v, e2) \<Rightarrow>
                  (case callGlobal F (globalAuthResponse (option kk)) schema e2 of
                     (Throw x, e3) \<Rightarrow> (Throw x, kk, e3)
                   | (Return v, e3) \<Rightarrow> (Return Undefined, kk, e3)))))"

text \<open>\<^verbatim>\<open>this._manual(schema, req, res)[type]()\<close>\<close>

definition manual ::
  "(nat \<Rightarrow> behaviour) \<Rightarrow> knockknock \<Rightarrow> jsval \<Rightarrow> cap \<Rightarrow> env \<Rightarrow>
     jsval completion \<times> knockknock \<times> env" where
  "manual F kk schema type e =
     (case type of
        Login \<Rightarrow> login F kk schema e
      | Auth \<Rightarrow> auth F kk schema e)"

section \<open>The middleware factory\<close>

text \<open>
  \<^verbatim>\<open>createOptionalMethods\<close> installs, for each capability type and each of its lazy
  methods, the factory \<^verbatim>\<open>function (schemaName)\<close>. What the returned middleware closes
  over: the \<^verbatim>\<open>type\<close> and \<^verbatim>\<open>method\<close> of the loop, and the variable \<^verbatim>\<open>schema\<close> declared
  in the factory, outside the middleware (\<^verbatim>\<open>undefined\<close> until assigned).
\<close>

record closure =
  mw_type :: cap
  mw_method :: string
  mw_schema :: jsval

definition optionalMethod ::
  "heap \<Rightarrow> knockknock \<Rightarrow> cap \<Rightarrow> string \<Rightarrow> jsval \<Rightarrow> thrown + (closure \<times> knockknock)" where
  "optionalMethod h kk type method schemaName =
     (if truthy schemaName then
        (case preferSchema h kk schemaName (Some type) of
           (Inl x, kk1) \<Rightarrow> Inl x
         | (Inr s, kk1) \<Rightarrow> Inr (\<lparr>mw_type = type, mw_method = method, mw_schema = s\<rparr>, kk1))
      else Inr (\<lparr>mw_type = type, mw_method = method, mw_schema = Undefined\<rparr>, kk))"

text \<open>How the middleware calls \<^verbatim>\<open>next\<close>: \<^verbatim>\<open>next()\<close> or \<^verbatim>\<open>next(v)\<close>.\<close>

datatype next_call = Next_no_argument | Next_with jsval

text \<open>Lines 283 to 290: \<^verbatim>\<open>if (!schema) { schema = this._preferSchema(...) }\<close>.\<close>

definition deduce_schema ::
  "knockknock \<Rightarrow> closure \<Rightarrow> env \<Rightarrow> jsval completion \<times> knockknock \<times> closure" where
  "deduce_schema kk c e =
     (case e of (h, req, res) \<Rightarrow>
        if \<not> truthy (mw_schema c) then
          (case preferSchema h kk (getParamFromReq req (interface (mw_type c)))
                  (Some (mw_type c)) of
             (Inl x, kk1) \<Rightarrow> (Throw x, kk1, c)
           | (Inr s, kk1) \<Rightarrow> (Return Undefined, kk1, c\<lparr>mw_schema := s\<rparr>))
        else (Return Undefined, kk, c))"

text \<open>Lines 300 to 311: the engine for an interface method, the bare method otherwise.\<close>

definition invoke ::
  "(nat \<Rightarrow> behaviour) \<Rightarrow> knockknock \<Rightarrow> closure \<Rightarrow> env \<Rightarrow> jsval completion \<times> knockknock \<times> env" where
  "invoke F kk c e =
     (let schema = mw_schema c;
          isInterfaceMethod =
            list_ex (\<lambda>v. getprop (fst e) schema v = getprop (fst e) schema (mw_method c))
              (map interface [Login, Auth])
      in if isInterfaceMethod then
           (case manual F kk schema (mw_type c) e of
              (Throw x, kk1, e1) \<Rightarrow> (Throw x, kk1, e1)
            | (Return u, kk1, (h1, req1, res1)) \<Rightarrow>
                (let u1 = js_or u (user req1)
                 in if \<not> truthy u1 \<and> \<not> truthy (unauthorizedError req1) then
                      (let (p, h2) = alloc h1 (new_UnauthorizedError
                             ''must set req.user if login/auth success or set req.unauthorizedError otherwise''
                             schema None)
                       in (Return Undefined, kk1, (h2, req1\<lparr>unauthorizedError := JRef p\<rparr>, res1)))
                    else (Return Undefined, kk1, (h1, req1, res1))))
         else
           (case callMethod F schema (mw_method c) e of
              (r, e1) \<Rightarrow> (r, kk, e1)))"

text \<open>The body of the \<^verbatim>\<open>try\<close> block, up to the call \<^verbatim>\<open>next()\<close> that follows it.\<close>

definition middleware_try ::
  "(nat \<Rightarrow> behaviour) \<Rightarrow> knockknock \<Rightarrow> closure \<Rightarrow> env \<Rightarrow>
     jsval completion \<times> knockknock \<times> closure \<times> env" where
  "middleware_try F kk c e =
     (if \<not> valid (fst e) kk then (Throw AssertionError, kk, c, e)
      else
        (case deduce_schema kk c e of
           (Throw x, kk1, c1) \<Rightarrow> (Throw x, kk1, c1, e)
         | (Return v, kk1, c1) \<Rightarrow>
             if \<not> (truthy (mw_schema c1)
                    \<and> (case getprop (fst e) (mw_schema c1) (mw_method c1) of
                          Inr m \<Rightarrow> typeof_function m | Inl x \<Rightarrow> False))
             then (Throw AssertionError, kk1, c1, e)
             else
               (case invoke F kk1 c1 e of
                  (Throw x, kk2, e2) \<Rightarrow> (Throw x, kk2, c1, e2)
                | (Return v, kk2, (h2, req2, res2)) \<Rightarrow>
                    if truthy (unauthorizedError req2)
                    then (Throw (Value (unauthorizedError req2)), kk2, c1, (h2, req2, res2))
                    else (Return Undefined, kk2, c1, (h2, req2, res2)))))"

text \<open>
  The middleware \<^verbatim>\<open>async (req, res, next)\<close>: what it passes to \<^verbatim>\<open>next\<close>, and the instance,
  the closure, the store, the request and the response as it leaves them.
\<close>

definition middleware ::
  "(nat \<Rightarrow> behaviour) \<Rightarrow> knockknock \<Rightarrow> closure \<Rightarrow> env \<Rightarrow>
     next_call \<times> knockknock \<times> closure \<times> env" where
  "middleware F kk c e =
     (case middleware_try F kk c e of
        (Return v, kk1, c1, e1) \<Rightarrow> (Next_no_argument, kk1, c1, e1)
      | (Throw err, kk1, c1, (h1, req1, res1)) \<Rightarrow>
          (let (h2, req2) =
                 (if \<not> instanceof_UnauthorizedError h1 err then
                    (let (p, h') = alloc h1 (new_UnauthorizedError ''internal error''
                                              (mw_schema c1) (Some err))
                     in (h', req1\<lparr>unauthorizedError := JRef p\<rparr>))
                  else (h1, req1))
           in (if truthy (throwUnauthorizedError (option kk1))
               then Next_with (unauthorizedError req2)
               else Next_no_argument,
               kk1, c1, (h2, req2, res1))))"

text \<open>The components of what a middleware run leaves behind.\<close>

definition run_next :: "next_call \<times> knockknock \<times> closure \<times> env \<Rightarrow> next_call" where
  "run_next w = fst w"

definition run_instance :: "next_call \<times> knockknock \<times> closure \<times> env \<Rightarrow> knockknock" where
  "run_instance w = fst (snd w)"

definition run_closure :: "next_call \<times> knockknock \<times> closure \<times> env \<Rightarrow> closure" where
  "run_closure w = fst (snd (snd w))"

definition run_heap :: "next_call \<times> knockknock \<times> closure \<times> env \<Rightarrow> heap" where
  "run_heap w = fst (snd (snd (snd w)))"

definition run_req :: "next_call \<times> knockknock \<times> closure \<times> env \<Rightarrow> request" where
  "run_req w = fst (snd (snd (snd (snd w))))"

section \<open>A concrete deployment\<close>

text \<open>
  Five schemas, each with one function installed both as its required login method and
  as its \<^verbatim>\<open>login\<close> method (so that the \<^verbatim>\<open>login\<close> middleware runs the engine):
  \<^item> object 1, function 1: \<^verbatim>\<open>knockLogin\<close> returns the user object 10;
  \<^item> object 2, function 2: \<^verbatim>\<open>knockLogin\<close> returns the string \<^verbatim>\<open>'bob'\<close>;
  \<^item> object 3, function 3: \<^verbatim>\<open>knockLogin\<close> rejects, setting
    \<^verbatim>\<open>req.unauthorizedError = new UnauthorizedError('bad credentials', this)\<close>;
  \<^item> object 4, function 4: \<^verbatim>\<open>knockLogin\<close> ends the response and sets nothing;
  \<^item> object 5, function 5: \<^verbatim>\<open>knockLogin\<close> does nothing.
\<close>

definition emptyObject :: obj where
  "emptyObject = \<lparr>props = (\<lambda>p. Undefined), symbolDefault = Undefined, kind = Plain\<rparr>"

definition loginSchema :: "nat \<Rightarrow> obj" where
  "loginSchema f =
     \<lparr>props = (\<lambda>p. Undefined)(''knockLogin'' := JFun f, ''login'' := JFun f),
      symbolDefault = Undefined, kind = Plain\<rparr>"

definition ex_heap :: heap where
  "ex_heap =
     \<lparr>store = (\<lambda>r. if r = 0 \<or> 5 < r then emptyObject else loginSchema r), fresh = 20\<rparr>"

definition ex_F :: "nat \<Rightarrow> behaviour" where
  "ex_F f self e =
     (case e of (h, req, res) \<Rightarrow>
        if f = 1 then (Return (JRef 10), e)
        else if f = 2 then (Return (JStr ''bob''), e)
        else if f = 3 then
          (let (p, h1) = alloc h (new_UnauthorizedError ''bad credentials'' self None)
           in (Return Undefined, (h1, req\<lparr>unauthorizedError := JRef p\<rparr>, res)))
        else if f = 4 then (Return Undefined, (h, req, res\<lparr>headersSent := True\<rparr>))
        else (Return Undefined, e))"

text \<open>A request whose path parameters are \<open>ps\<close> and whose other sources are empty.\<close>

definition ex_req :: "(string \<Rightarrow> jsval) \<Rightarrow> request" where
  "ex_req ps =
     \<lparr>params = ps, query = (\<lambda>p. Undefined), cookies = (\<lambda>p. Undefined),
      body = (\<lambda>p. Undefined), user = Undefined, unauthorizedError = Undefined\<rparr>"

definition ex_res :: response where
  "ex_res = \<lparr>headersSent = False\<rparr>"

text \<open>
  \<^verbatim>\<open>kk = new KnockKnock(opt); kk.enable(name, schema)\<close> for each listed schema in turn:
  the store and the instance afterwards (unchanged from the first call that throws).
\<close>

fun enabled :: "heap \<times> knockknock \<Rightarrow> (string \<times> nat) list \<Rightarrow> heap \<times> knockknock" where
  "enabled w [] = w"
| "enabled w ((name, r) # rest) =
     (case enable (fst w) (snd w) (JStr name) (JRef r) Undefined Undefined of
        Inr w1 \<Rightarrow> enabled w1 rest
      | Inl x \<Rightarrow> w)"

definition deployment :: "knock_option option \<Rightarrow> (string \<times> nat) list \<Rightarrow> heap \<times> knockknock" where
  "deployment opt entries = enabled (ex_heap, constructor opt) entries"

text \<open>\<^verbatim>\<open>kk.login()\<close>: the login middleware made without a schema name.\<close>

definition login_middleware :: closure where
  "login_middleware = \<lparr>mw_type = Login, mw_method = ''login'', mw_schema = Undefined\<rparr>"

text \<open>One request with path parameter \<^verbatim>\<open>knockLogin = name\<close> through a middleware.\<close>

definition req_named :: "string \<Rightarrow> request" where
  "req_named name = ex_req ((\<lambda>p. Undefined)(''knockLogin'' := JStr name))"

definition request_for ::
  "knockknock \<Rightarrow> closure \<Rightarrow> heap \<Rightarrow> string \<Rightarrow> next_call \<times> knockknock \<times> closure \<times> env" where
  "request_for kk c h name = middleware ex_F kk c (h, req_named name, ex_res)"

text \<open>\<^verbatim>\<open>kk = new KnockKnock(); kk.enable('A', schema, true)\<close> with the schema object 1.\<close>

definition default_deployment :: "heap \<times> knockknock" where
  "default_deployment =
     (case enable ex_heap (constructor None) (JStr ''A'') (JRef 1) (JBool True) Undefined of
        Inr w \<Rightarrow> w
      | Inl x \<Rightarrow> (ex_heap, constructor None))"

text \<open>That instance after a first resolution of its default login schema.\<close>

definition cached_instance :: knockknock where
  "cached_instance =
     snd (preferSchema (fst default_deployment) (snd default_deployment) Undefined (Some Login))"

text \<open>
  \<^verbatim>\<open>new KnockKnock({throwUnauthorizedError: false})\<close> with the rejecting schema enabled as
  \<^verbatim>\<open>'C'\<close>, and one request naming it through \<^verbatim>\<open>kk.login()\<close>.
\<close>

definition option_false :: knock_option where
  "option_false =
     \<lparr>throwUnauthorizedError = JBool False, globalLoginResponse = Undefined,
      globalAuthResponse = Undefined\<rparr>"

definition run_rejected :: "next_call \<times> knockknock \<times> closure \<times> env" where
  "run_rejected =
     (let (h, kk) = deployment (Some option_false) [(''C'', 3)]
      in request_for kk login_middleware h ''C'')"

text \<open>
  Schemas \<^verbatim>\<open>'A'\<close> and \<^verbatim>\<open>'B'\<close> enabled, and two successive requests through the same
  \<^verbatim>\<open>kk.login()\<close> middleware, the first naming \<^verbatim>\<open>'A'\<close>, the second \<^verbatim>\<open>'B'\<close>.
\<close>

definition run_first :: "next_call \<times> knockknock \<times> closure \<times> env" where
  "run_first =
     (let (h, kk) = deployment None [(''A'', 1), (''B'', 2)]
      in request_for kk login_middleware h ''A'')"

definition run_second :: "next_call \<times> knockknock \<times> closure \<times> env" where
  "run_second =
     request_for (run_instance run_first) (run_closure run_first) (run_heap run_first) ''B''"

text \<open>The same second request through a middleware that has served no request yet.\<close>

definition run_second_alone :: "next_call \<times> knockknock \<times> closure \<times> env" where
  "run_second_alone =
     request_for (run_instance run_first) login_middleware (run_heap run_first) ''B''"

text \<open>The schema that ends the response, enabled as \<^verbatim>\<open>'D'\<close>, and one request naming it.\<close>

definition run_ended :: "next_call \<times> knockknock \<times> closure \<times> env" where
  "run_ended =
     (let (h, kk) = deployment None [(''D'', 4)]
      in request_for kk login_middleware h ''D'')"

text \<open>The schema that does nothing, enabled as \<^verbatim>\<open>'E'\<close>, and one request naming it.\<close>

definition run_silent :: "next_call \<times> knockknock \<times> closure \<times> env" where
  "run_silent =
     (let (h, kk) = deployment None [(''E'', 5)]
      in request_for kk login_middleware h ''E'')"

text \<open>A request with an empty path parameter \<^verbatim>\<open>k\<close> and a query parameter \<^verbatim>\<open>k = 'x'\<close>.\<close>

definition req_empty_path :: request where
  "req_empty_path =
     (ex_req ((\<lambda>p. Undefined)(''k'' := JStr [])))\<lparr>query := (\<lambda>p. Undefined)(''k'' := JStr ''x'')\<rparr>"

section \<open>Facts shared by the proofs\<close>

lemma normalizeOption_truthy: "truthy (throwUnauthorizedError (normalizeOption opt))"
  by (cases opt) (simp_all add: normalizeOption_def js_or_def Let_def)

lemma preferSchema_option: "preferSchema h kk name type = (r, kk1) \<Longrightarrow> option kk1 = option kk"
  by (auto simp: preferSchema_def Let_def split: if_splits option.splits sum.splits)

lemma login_create_option: "login_create F kk u e = (r, kk1, e1) \<Longrightarrow> option kk1 = option kk"
  by (auto simp: login_create_def split: if_splits prod.splits sum.splits
        dest: preferSchema_option)

lemma throwEnded_instance: "throwEnded kk schema e = (r, kk1, e1) \<Longrightarrow> kk1 = kk"
  by (auto simp: throwEnded_def alloc_def Let_def split: prod.splits)

lemma login_rest_option: "login_rest F kk schema u e = (r, kk1, e1) \<Longrightarrow> option kk1 = option kk"
  by (auto simp: login_rest_def split: if_splits prod.splits completion.splits
        dest: login_create_option throwEnded_instance)

lemma login_option: "login F kk schema e = (r, kk1, e1) \<Longrightarrow> option kk1 = option kk"
  by (auto simp: login_def split: if_splits prod.splits completion.splits
        dest: login_rest_option)

lemma auth_instance: "auth F kk schema e = (r, kk1, e1) \<Longrightarrow> kk1 = kk"
  by (auto simp: auth_def split: if_splits prod.splits completion.splits
        dest: throwEnded_instance)

lemma manual_option: "manual F kk schema type e = (r, kk1, e1) \<Longrightarrow> option kk1 = option kk"
  by (cases type) (auto simp: manual_def dest: login_option auth_instance)

text \<open>Neither \<^verbatim>\<open>login\<close> nor \<^verbatim>\<open>auth\<close> has a \<^verbatim>\<open>return\<close> statement.\<close>

lemma login_rest_returns: "login_rest F kk schema u e = (Return v, kk1, e1) \<Longrightarrow> v = Undefined"
  by (auto simp: login_rest_def throwEnded_def alloc_def Let_def
        split: if_splits prod.splits completion.splits)

lemma manual_returns: "manual F kk schema type e = (Return v, kk1, e1) \<Longrightarrow> v = Undefined"
  by (cases type)
     (auto simp: manual_def login_def auth_def throwEnded_def alloc_def Let_def
        split: if_splits prod.splits completion.splits dest: login_rest_returns)

lemma deduce_schema_option: "deduce_schema kk c e = (r, kk1, c1) \<Longrightarrow> option kk1 = option kk"
  by (auto simp: deduce_schema_def split: if_splits prod.splits sum.splits
        dest: preferSchema_option)

lemma invoke_option: "invoke F kk c e = (r, kk1, e1) \<Longrightarrow> option kk1 = option kk"
  by (auto simp: invoke_def Let_def alloc_def split: if_splits prod.splits completion.splits
        dest: manual_option)

lemma middleware_try_option:
  "middleware_try F kk c e = (r, kk1, c1, e1) \<Longrightarrow> option kk1 = option kk"
  by (auto simp: middleware_try_def split: if_splits prod.splits completion.splits
        dest!: deduce_schema_option invoke_option)

text \<open>
  On an instance whose \<^verbatim>\<open>throwUnauthorizedError\<close> is truthy, as \<open>normalizeOption\<close> makes
  it, a failing middleware passes \<^verbatim>\<open>req.unauthorizedError\<close> to \<^verbatim>\<open>next\<close>.
\<close>

lemma middleware_next:
  "truthy (throwUnauthorizedError (option kk)) \<Longrightarrow> middleware_try F kk c e = (Throw x, w) \<Longrightarrow>
   run_next (middleware F kk c e) = Next_with (unauthorizedError (run_req (middleware F kk c e)))"
  by (cases w)
     (auto simp: middleware_def run_next_def run_req_def Let_def alloc_def
        split: prod.splits dest!: middleware_try_option)

section \<open>The throw-or-suppress option\<close>

text \<open>
  C1. Claimed: an instance constructed with \<^verbatim>\<open>throwUnauthorizedError === false\<close> makes a
  failing middleware call \<^verbatim>\<open>next()\<close> with no argument, leaving \<^verbatim>\<open>req.unauthorizedError\<close>
  populated. The code does not: \<open>normalizeOption\<close> computes
  \<^verbatim>\<open>option.throwUnauthorizedError || true\<close>, which replaces \<^verbatim>\<open>false\<close> by \<^verbatim>\<open>true\<close>. On the
  instance built from \<^verbatim>\<open>{throwUnauthorizedError: false}\<close>, with the rejecting schema
  enabled, the stored option is \<^verbatim>\<open>true\<close> and the failing login middleware calls
  \<^verbatim>\<open>next(error)\<close> with the error the schema stored on the request.
\<close>

theorem C1_false_option_forwards_error:
  "throwUnauthorizedError option_false = JBool False
   \<and> throwUnauthorizedError (option (run_instance run_rejected)) = JBool True
   \<and> run_next run_rejected = Next_with (JRef 20)
   \<and> unauthorizedError (run_req run_rejected) = JRef 20
   \<and> kind (store (run_heap run_rejected) 20) = Unauthorized ''bad credentials'' (JRef 3) None"
  by code_simp

section \<open>Parameter extraction\<close>

text \<open>
  C3, as amended. For every request and key, parameter extraction returns the first
  truthy value among the path parameter, the query parameter and the cookie named key,
  in that order, and the body field named key when none of the three is truthy.
\<close>

theorem C3_first_truthy:
  "getParamFromReq req key =
     (case find truthy [params req key, query req key, cookies req key] of
        Some v \<Rightarrow> v
      | None \<Rightarrow> body req key)"
  by (simp add: getParamFromReq_def js_or_def)

text \<open>
  C3, as claimed, fails: a path parameter that is defined but falsy is not the value
  returned. With the path parameter \<^verbatim>\<open>k\<close> the empty string and the query parameter
  \<^verbatim>\<open>k\<close> the string \<^verbatim>\<open>'x'\<close>, the extraction returns \<^verbatim>\<open>'x'\<close>.
\<close>

theorem C3_counterexample:
  "params req_empty_path ''k'' \<noteq> Undefined
   \<and> getParamFromReq req_empty_path ''k'' \<noteq> params req_empty_path ''k''"
  by (simp add: req_empty_path_def ex_req_def getParamFromReq_def js_or_def)

section \<open>The registry\<close>

lemma valid_iff:
  "valid h kk \<longleftrightarrow>
     schemas kk \<noteq> []
     \<and> (\<exists>i \<in> set (Map_values (schemas kk)). typeof_function (props (store h i) ''knockLogin''))"
  by (auto simp: valid_def hasRequiredFunction_def list_ex_iff)

lemma Map_get_absent: "k \<notin> fst ` set m \<Longrightarrow> Map_get m k = Undefined"
  by (induction m) auto

lemma Map_set_member: "v \<in> set (Map_values (Map_set m k v))"
  by (induction m) (force simp: Map_values_def split: if_splits)+

lemma Map_set_nonempty: "Map_set m k v \<noteq> []"
  by (cases m) (auto split: if_splits)

lemma Map_delete_set: "Map_delete (Map_set m k v) k = Map_delete m k"
  by (induction m) (auto simp: Map_delete_def)

lemma Map_delete_values: "set (Map_values (Map_delete m k)) \<subseteq> set (Map_values m)"
  by (auto simp: Map_delete_def Map_values_def)

text \<open>
  A call of \<^verbatim>\<open>enable\<close> that returns stores the object under its effective name, which
  is truthy, and leaves the required methods of every object as they were.
\<close>

lemma enable_object:
  assumes "enable h kk name (JRef r) d v = Inr (h1, kk1)"
  shows "schemas kk1 = Map_set (schemas kk) (effective_name h name r) r"
    and "truthy (effective_name h name r)"
    and "props (store h1 i) ''knockLogin'' = props (store h i) ''knockLogin''"
    and "props (store h1 i) ''knockAuth'' = props (store h i) ''knockAuth''"
  using assms
  by (auto simp: enable_def Let_def setprop_def effective_name_def split: if_splits)

text \<open>
  C6. For every registry state, \<^verbatim>\<open>valid\<close> is true iff the registry is non-empty and at
  least one stored schema has a callable \<^verbatim>\<open>knockLogin\<close>. In particular a new instance
  is not valid; a call of \<^verbatim>\<open>enable\<close> that returns, with a schema exposing the required
  login method, makes the instance valid; and where the instance was not valid before
  that call, disabling the schema (by the name it was stored under) makes it not valid
  again.
\<close>

theorem C6_valid:
  "(valid h kk \<longleftrightarrow>
      schemas kk \<noteq> []
      \<and> (\<exists>i \<in> set (Map_values (schemas kk)). typeof_function (props (store h i) ''knockLogin'')))
   \<and> \<not> valid h (constructor opt)
   \<and> (typeof_function (props (store h r) ''knockLogin'')
        \<and> enable h kk name (JRef r) d v = Inr (h1, kk1) \<longrightarrow> valid h1 kk1)
   \<and> (\<not> valid h kk \<and> enable h kk name (JRef r) d v = Inr (h1, kk1) \<longrightarrow>
        (\<exists>kk2. disable kk1 (effective_name h name r) = Inr kk2 \<and> \<not> valid h1 kk2))"
proof (intro conjI impI)
  show "valid h kk \<longleftrightarrow>
      schemas kk \<noteq> []
      \<and> (\<exists>i \<in> set (Map_values (schemas kk)). typeof_function (props (store h i) ''knockLogin''))"
    by (rule valid_iff)
  show "\<not> valid h (constructor opt)"
    by (simp add: valid_def constructor_def)
next
  assume a: "typeof_function (props (store h r) ''knockLogin'')
        \<and> enable h kk name (JRef r) d v = Inr (h1, kk1)"
  then have en: "enable h kk name (JRef r) d v = Inr (h1, kk1)" by simp
  have "r \<in> set (Map_values (schemas kk1))"
    by (simp add: enable_object(1) [OF en] Map_set_member)
  moreover have "typeof_function (props (store h1 r) ''knockLogin'')"
    using a by (simp add: enable_object(3) [OF en])
  moreover have "schemas kk1 \<noteq> []"
    by (simp add: enable_object(1) [OF en] Map_set_nonempty)
  ultimately show "valid h1 kk1"
    unfolding valid_iff by blast
next
  assume a: "\<not> valid h kk \<and> enable h kk name (JRef r) d v = Inr (h1, kk1)"
  then have en: "enable h kk name (JRef r) d v = Inr (h1, kk1)" and nv: "\<not> valid h kk"
    by simp_all
  let ?n = "effective_name h name r"
  let ?kk2 = "kk1\<lparr>schemas := Map_delete (schemas kk1) ?n,
                  defaultSchemasCache := (\<lambda>t. Undefined)\<rparr>"
  have d: "disable kk1 ?n = Inr ?kk2"
    using enable_object(2) [OF en] by (simp add: disable_def)
  have s2: "schemas ?kk2 = Map_delete (schemas kk) ?n"
    by (simp add: enable_object(1) [OF en] Map_delete_set)
  have none: "\<forall>i \<in> set (Map_values (schemas kk)).
                \<not> typeof_function (props (store h i) ''knockLogin'')"
    using nv unfolding valid_iff by (cases "schemas kk") (auto simp: Map_values_def)
  have "\<forall>i \<in> set (Map_values (schemas ?kk2)).
          \<not> typeof_function (props (store h1 i) ''knockLogin'')"
    using none Map_delete_values [of "schemas kk" ?n]
    by (auto simp: s2 enable_object(3) [OF en])
  then have "\<not> valid h1 ?kk2"
    unfolding valid_iff by blast
  with d show "\<exists>kk2. disable kk1 ?n = Inr kk2 \<and> \<not> valid h1 kk2"
    by blast
qed

text \<open>A new instance, with schema object 1 enabled as \<^verbatim>\<open>'A'\<close> and disabled again.\<close>

theorem C6_witness:
  "typeof_function (props (store ex_heap 1) ''knockLogin'')
   \<and> \<not> valid ex_heap (constructor None)
   \<and> enable ex_heap (constructor None) (JStr ''A'') (JRef 1) Undefined Undefined
       = Inr (deployment None [(''A'', 1)])
   \<and> valid (fst (deployment None [(''A'', 1)])) (snd (deployment None [(''A'', 1)]))
   \<and> (\<exists>kk2. disable (snd (deployment None [(''A'', 1)])) (JStr ''A'') = Inr kk2
             \<and> \<not> valid (fst (deployment None [(''A'', 1)])) kk2)"
proof -
  let ?w = "deployment None [(''A'', 1)]"
  have f: "typeof_function (props (store ex_heap 1) ''knockLogin'')"
    by (simp add: ex_heap_def loginSchema_def)
  have en: "enable ex_heap (constructor None) (JStr ''A'') (JRef 1) Undefined Undefined
              = Inr (fst ?w, snd ?w)"
    by (simp add: deployment_def enable_def Let_def)
  have n: "effective_name ex_heap (JStr ''A'') 1 = JStr ''A''"
    by (simp add: effective_name_def)
  note t = C6_valid [of ex_heap "constructor None" None 1 "JStr ''A''" Undefined Undefined
      "fst ?w" "snd ?w", unfolded n]
  have nv: "\<not> valid ex_heap (constructor None)"
    using t by blast
  have v: "valid (fst ?w) (snd ?w)"
    using t f en by blast
  have d: "\<exists>kk2. disable (snd ?w) (JStr ''A'') = Inr kk2 \<and> \<not> valid (fst ?w) kk2"
    using t nv en by blast
  show ?thesis
    using f nv en v d by simp
qed

text \<open>
  C5. Resolution of the default schema of a capability type is memoized: a resolution
  with no name, followed with no \<^verbatim>\<open>enable\<close> or \<^verbatim>\<open>disable\<close> in between by another one
  for the same type, returns the identical result and leaves the cache as it is; when
  the first found a schema, the second returns that same reference whatever happened to
  the store in between. Every call of \<^verbatim>\<open>enable\<close> or \<^verbatim>\<open>disable\<close> that returns leaves the
  cache empty, whatever the registry held before and holds after.
\<close>

theorem C5_default_memo:
  "(\<not> truthy name \<and> \<not> truthy name' \<and> preferSchema h kk name (Some type) = (r, kk1)
      \<longrightarrow> preferSchema h kk1 name' (Some type) = (r, kk1)
          \<and> ((\<exists>i. r = Inr (JRef i)) \<longrightarrow> preferSchema h' kk1 name' (Some type) = (r, kk1)))
   \<and> (enable h kk n s d v = Inr (h2, kk2) \<longrightarrow> defaultSchemasCache kk2 = (\<lambda>t. Undefined))
   \<and> (disable kk n = Inr kk3 \<longrightarrow> defaultSchemasCache kk3 = (\<lambda>t. Undefined))"
  apply (intro conjI impI)
     apply (auto simp: preferSchema_def Let_def split: if_splits)[2]
  apply (auto simp: enable_def Let_def disable_def split: if_splits jsval.splits prod.splits)
  done

text \<open>
  On the instance whose cache holds the default login schema: a resolution returns it,
  the next one returns it again (also over another store), and re-enabling \<^verbatim>\<open>'A'\<close> or
  disabling it empties the cache.
\<close>

theorem C5_witness:
  "defaultSchemasCache cached_instance Login = JRef 1
   \<and> preferSchema (fst default_deployment) cached_instance Undefined (Some Login)
       = (Inr (JRef 1), cached_instance)
   \<and> preferSchema (fst default_deployment) cached_instance Null (Some Login)
       = (Inr (JRef 1), cached_instance)
   \<and> preferSchema ex_heap cached_instance Null (Some Login) = (Inr (JRef 1), cached_instance)
   \<and> (\<exists>h2 kk2. enable (fst default_deployment) cached_instance (JStr ''A'') (JRef 1) (JBool True)
                   Undefined = Inr (h2, kk2)
                \<and> defaultSchemasCache kk2 = (\<lambda>t. Undefined))
   \<and> (\<exists>kk3. disable cached_instance (JStr ''A'') = Inr kk3
             \<and> defaultSchemasCache kk3 = (\<lambda>t. Undefined))"
proof -
  let ?h = "fst default_deployment"
  have c: "defaultSchemasCache cached_instance Login = JRef 1"
    by code_simp
  have p: "preferSchema ?h cached_instance Undefined (Some Login) = (Inr (JRef 1), cached_instance)"
    by (simp add: preferSchema_def c)
  obtain h2 kk2 where en: "enable ?h cached_instance (JStr ''A'') (JRef 1) (JBool True) Undefined
      = Inr (h2, kk2)"
    by (simp add: enable_def Let_def)
  obtain kk3 where d: "disable cached_instance (JStr ''A'') = Inr kk3"
    by (simp add: disable_def)
  have f: "\<not> truthy Undefined \<and> \<not> truthy Null"
    by simp
  from C5_default_memo [where name = Undefined and name' = Null and h = ?h
      and kk = cached_instance and type = Login and r = "Inr (JRef 1)"
      and ?kk1.0 = cached_instance and h' = ex_heap and n = "JStr ''A''" and s = "JRef 1"
      and d = "JBool True" and v = Undefined and ?h2.0 = h2 and ?kk2.0 = kk2 and ?kk3.0 = kk3]
  show ?thesis
    using c p en d f by blast
qed

section \<open>The schema resolver\<close>

text \<open>A registered name resolves to its schema if that has the required method.\<close>

lemma preferSchema_named:
  "truthy name \<Longrightarrow> Map_get (schemas kk) name = JRef r \<Longrightarrow>
   preferSchema h kk name (Some t) =
     (Inr (if typeof_function (props (store h r) (interface t)) then JRef r else Undefined), kk)"
  by (simp add: preferSchema_def hasRequiredFunction_def)

text \<open>
  C4. Claimed: with an explicit name and a type, the resolver returns the named schema
  only when it has the required method for the type, and otherwise returns
  \<^verbatim>\<open>undefined\<close>. For a name that is not registered the code does not return: with only
  \<^verbatim>\<open>'A'\<close> enabled, \<^verbatim>\<open>_preferSchema('ghost', 'login')\<close> looks \<^verbatim>\<open>'ghost'\<close> up, gets
  \<^verbatim>\<open>undefined\<close>, and throws a \<^verbatim>\<open>TypeError\<close> from \<^verbatim>\<open>hasRequiredFunction\<close>.
\<close>

theorem C4_unregistered_name_throws:
  "Map_get (schemas (snd (deployment None [(''A'', 1)]))) (JStr ''ghost'') = Undefined
   \<and> fst (preferSchema (fst (deployment None [(''A'', 1)])) (snd (deployment None [(''A'', 1)]))
           (JStr ''ghost'') (Some Login)) = Inl TypeError"
  by code_simp

text \<open>
  C10. Resolving an explicit (truthy) name that is absent from the registry, with a
  capability type given, does not return \<^verbatim>\<open>undefined\<close>: a \<^verbatim>\<open>TypeError\<close> escapes
  \<^verbatim>\<open>_preferSchema\<close>, and it escapes every middleware factory method called with that
  name.
\<close>

theorem C10_unregistered_name_TypeError:
  "truthy name \<Longrightarrow> name \<notin> fst ` set (schemas kk) \<Longrightarrow>
   preferSchema h kk name (Some type) = (Inl TypeError, kk)
   \<and> optionalMethod h kk type method name = Inl TypeError"
  by (simp add: preferSchema_def optionalMethod_def hasRequiredFunction_def Map_get_absent)

text \<open>The name \<^verbatim>\<open>'ghost'\<close> on an instance where only \<^verbatim>\<open>'A'\<close> is enabled.\<close>

theorem C10_witness:
  "truthy (JStr ''ghost'')
   \<and> JStr ''ghost'' \<notin> fst ` set (schemas (snd (deployment None [(''A'', 1)])))
   \<and> preferSchema ex_heap (snd (deployment None [(''A'', 1)])) (JStr ''ghost'') (Some Login)
       = (Inl TypeError, snd (deployment None [(''A'', 1)]))
   \<and> optionalMethod ex_heap (snd (deployment None [(''A'', 1)])) Login ''login'' (JStr ''ghost'')
       = Inl TypeError"
proof -
  have absent: "JStr ''ghost'' \<notin> fst ` set (schemas (snd (deployment None [(''A'', 1)])))"
    by (simp add: deployment_def enable_def constructor_def ex_heap_def loginSchema_def setprop_def)
  have "truthy (JStr ''ghost'')" by simp
  from C10_unregistered_name_TypeError [OF this absent, of ex_heap Login "''login''"] absent
  show ?thesis by simp
qed

section \<open>The execution engine: establishing the user\<close>

lemma requiredCall_Return:
  "callMethod F schema (interface type) e = (Return r, (h1, req1, res1)) \<Longrightarrow>
   requiredCall F schema type e =
     (Return (fst (setUser h1 req1 (js_or r (user req1)))),
      (fst (snd (setUser h1 req1 (js_or r (user req1)))),
       snd (snd (setUser h1 req1 (js_or r (user req1)))), res1))"
  by (simp add: requiredCall_def split: prod.splits)

text \<open>
  C9. In every login execution (the instance valid, the required login method returning
  \<open>r\<close> and leaving the request as \<open>req1\<close>), the user value \<open>v\<close> is \<open>r\<close>, or, when \<open>r\<close> is
  falsy, what the schema left at \<^verbatim>\<open>req.user\<close>. A falsy \<open>v\<close> leaves the request as it
  is; a truthy object is stored at \<^verbatim>\<open>req.user\<close> as it is; a truthy non-object is stored
  as a new object \<^verbatim>\<open>{user: v}\<close>. The execution goes on from there.
\<close>

theorem C9_set_user_rule:
  "valid (fst e) kk \<Longrightarrow>
   callMethod F schema (interface Login) e = (Return r, (h1, req1, res1)) \<Longrightarrow>
   v = (if truthy r then r else user req1) \<Longrightarrow>
   (\<not> truthy v \<longrightarrow>
      login F kk schema e = login_rest F kk schema v (h1, req1, res1))
   \<and> (truthy v \<and> typeof_object v \<longrightarrow>
        login F kk schema e = login_rest F kk schema v (h1, req1\<lparr>user := v\<rparr>, res1))
   \<and> (truthy v \<and> \<not> typeof_object v \<longrightarrow>
        login F kk schema e =
          login_rest F kk schema (JRef (fresh h1))
            (h1\<lparr>store := (store h1)(fresh h1 :=
                   \<lparr>props = (\<lambda>k. Undefined)(''user'' := v), symbolDefault = Undefined,
                    kind = Plain\<rparr>),
                fresh := Suc (fresh h1)\<rparr>,
             req1\<lparr>user := JRef (fresh h1)\<rparr>, res1))"
  by (simp add: login_def requiredCall_Return setUser_def alloc_def Let_def js_or_def)

text \<open>The login execution of the schema whose login method returns \<^verbatim>\<open>'bob'\<close>.\<close>

theorem C9_witness:
  "valid (fst (deployment None [(''B'', 2)])) (snd (deployment None [(''B'', 2)]))
   \<and> callMethod ex_F (JRef 2) (interface Login)
        (fst (deployment None [(''B'', 2)]), req_named ''B'', ex_res)
       = (Return (JStr ''bob''), fst (deployment None [(''B'', 2)]), req_named ''B'', ex_res)
   \<and> truthy (JStr ''bob'') \<and> \<not> typeof_object (JStr ''bob'')
   \<and> login ex_F (snd (deployment None [(''B'', 2)])) (JRef 2)
        (fst (deployment None [(''B'', 2)]), req_named ''B'', ex_res)
       = login_rest ex_F (snd (deployment None [(''B'', 2)])) (JRef 2)
           (JRef (fresh (fst (deployment None [(''B'', 2)]))))
           ((fst (deployment None [(''B'', 2)]))
              \<lparr>store := (store (fst (deployment None [(''B'', 2)])))
                 (fresh (fst (deployment None [(''B'', 2)])) :=
                    \<lparr>props = (\<lambda>k. Undefined)(''user'' := JStr ''bob''),
                     symbolDefault = Undefined, kind = Plain\<rparr>),
               fresh := Suc (fresh (fst (deployment None [(''B'', 2)])))\<rparr>,
            (req_named ''B'')\<lparr>user := JRef (fresh (fst (deployment None [(''B'', 2)])))\<rparr>,
            ex_res)"
proof -
  let ?h = "fst (deployment None [(''B'', 2)])" and ?kk = "snd (deployment None [(''B'', 2)])"
  let ?e = "(?h, req_named ''B'', ex_res)"
  have v: "valid (fst ?e) ?kk"
    by code_simp
  have p: "props (store ?h 2) ''knockLogin'' = JFun 2"
    by code_simp
  have c: "callMethod ex_F (JRef 2) (interface Login) ?e = (Return (JStr ''bob''), ?h, req_named ''B'', ex_res)"
    by (simp add: callMethod_def p ex_F_def)
  have u: "JStr ''bob'' = (if truthy (JStr ''bob'') then JStr ''bob'' else user (req_named ''B''))"
    by simp
  from C9_set_user_rule [OF v c u]
  show ?thesis
    using v c by simp
qed

text \<open>
  C8. In every login or auth execution in which the required capability method returns
  with the response ended (\<^verbatim>\<open>res.headersSent\<close> true), the engine throws a new
  \<^verbatim>\<open>UnauthorizedError\<close> with message \<^verbatim>\<open>don't end res in schema\<close> for that schema.
\<close>

theorem C8_ended_response_raises:
  "(type = Login \<longrightarrow> valid (fst e) kk) \<Longrightarrow>
   callMethod F schema (interface type) e = (Return r, (h1, req1, res1)) \<Longrightarrow>
   headersSent res1 \<Longrightarrow>
   \<exists>h2 req2 p.
     manual F kk schema type e = (Throw (Value (JRef p)), kk, (h2, req2, res1))
     \<and> kind (store h2 p) = Unauthorized ''don't end res in schema'' schema None
     \<and> instanceof_UnauthorizedError h2 (Value (JRef p))"
  by (cases type)
     (simp_all add: manual_def login_def auth_def login_rest_def throwEnded_def alloc_def
        new_UnauthorizedError_def requiredCall_Return Let_def split: prod.splits)

text \<open>The login execution of the schema that ends the response.\<close>

theorem C8_witness:
  "valid (fst (deployment None [(''D'', 4)])) (snd (deployment None [(''D'', 4)]))
   \<and> fst (callMethod ex_F (JRef 4) (interface Login)
             (fst (deployment None [(''D'', 4)]), req_named ''D'', ex_res)) = Return Undefined
   \<and> headersSent (snd (snd (snd (callMethod ex_F (JRef 4) (interface Login)
             (fst (deployment None [(''D'', 4)]), req_named ''D'', ex_res)))))
   \<and> (\<exists>h2 req2 res2 p.
         manual ex_F (snd (deployment None [(''D'', 4)])) (JRef 4) Login
           (fst (deployment None [(''D'', 4)]), req_named ''D'', ex_res)
           = (Throw (Value (JRef p)), snd (deployment None [(''D'', 4)]), (h2, req2, res2))
         \<and> kind (store h2 p) = Unauthorized ''don't end res in schema'' (JRef 4) None
         \<and> instanceof_UnauthorizedError h2 (Value (JRef p)))"
proof -
  let ?h = "fst (deployment None [(''D'', 4)])" and ?kk = "snd (deployment None [(''D'', 4)])"
  let ?e = "(?h, req_named ''D'', ex_res)"
  let ?c = "callMethod ex_F (JRef 4) (interface Login) ?e"
  have v: "Login = Login \<longrightarrow> valid (fst ?e) ?kk"
    by code_simp
  have r: "fst ?c = Return Undefined"
    by code_simp
  have s: "headersSent (snd (snd (snd ?c)))"
    by code_simp
  have c: "?c = (Return Undefined, (fst (snd ?c), fst (snd (snd ?c)), snd (snd (snd ?c))))"
    using r by (simp add: prod_eq_iff)
  from C8_ended_response_raises [OF v c s]
  show ?thesis
    using v r s by auto
qed

section \<open>The middleware\<close>

text \<open>
  C2. Claimed: a middleware made without a schema name infers the schema of each request
  from that request's own selector parameter. The code assigns the inferred schema to
  the variable \<^verbatim>\<open>schema\<close> of the factory call, which all requests through that
  middleware share: after a first request naming \<^verbatim>\<open>'A'\<close>, a second request naming
  \<^verbatim>\<open>'B'\<close> is dispatched to \<^verbatim>\<open>'A'\<close> (object 1, user object 10), whereas the same request
  through a fresh middleware is dispatched to \<^verbatim>\<open>'B'\<close> (object 2, user \<^verbatim>\<open>{user: 'bob'}\<close>).
\<close>

theorem C2_second_request_reuses_first_schema:
  "mw_schema (run_closure run_first) = JRef 1
   \<and> user (run_req run_first) = JRef 10
   \<and> params (req_named ''B'') ''knockLogin'' = JStr ''B''
   \<and> mw_schema (run_closure run_second) = JRef 1
   \<and> user (run_req run_second) = JRef 10
   \<and> mw_schema (run_closure run_second_alone) = JRef 2
   \<and> user (run_req run_second_alone) = JRef 20
   \<and> props (store (run_heap run_second_alone) 20) ''user'' = JStr ''bob''"
  by code_simp

text \<open>
  C7, as amended. For every middleware invocation, on an instance whose
  \<^verbatim>\<open>throwUnauthorizedError\<close> option is truthy, that is routed through the execution
  engine (the invoked method is one of the schema's two required methods) and in which
  the engine operation returns leaving neither \<^verbatim>\<open>req.user\<close> nor
  \<^verbatim>\<open>req.unauthorizedError\<close> truthy, a new \<^verbatim>\<open>UnauthorizedError\<close> with the message below is
  synthesized and stored on the request, and \<^verbatim>\<open>next\<close> is not called without argument:
  it is called with that error.
\<close>

theorem C7_synthesized_error:
  "truthy (throwUnauthorizedError (option kk)) \<Longrightarrow>
   valid (fst e) kk \<Longrightarrow>
   deduce_schema kk c e = (Return v, kk1, c1) \<Longrightarrow>
   truthy (mw_schema c1) \<Longrightarrow>
   getprop (fst e) (mw_schema c1) (mw_method c1) = Inr (JFun f) \<Longrightarrow>
   getprop (fst e) (mw_schema c1) (interface t) = Inr (JFun f) \<Longrightarrow>
   manual F kk1 (mw_schema c1) (mw_type c1) e = (Return u, kk2, (h2, req2, res2)) \<Longrightarrow>
   \<not> truthy (user req2) \<Longrightarrow>
   \<not> truthy (unauthorizedError req2) \<Longrightarrow>
   run_next (middleware F kk c e) = Next_with (JRef (fresh h2))
   \<and> run_next (middleware F kk c e) \<noteq> Next_no_argument
   \<and> unauthorizedError (run_req (middleware F kk c e)) = JRef (fresh h2)
   \<and> kind (store (run_heap (middleware F kk c e)) (fresh h2)) =
       Unauthorized ''must set req.user if login/auth success or set req.unauthorizedError otherwise''
         (mw_schema c1) None"
proof -
  assume opt: "truthy (throwUnauthorizedError (option kk))"
    and v: "valid (fst e) kk"
    and d: "deduce_schema kk c e = (Return v, kk1, c1)"
    and s: "truthy (mw_schema c1)"
    and m: "getprop (fst e) (mw_schema c1) (mw_method c1) = Inr (JFun f)"
    and i: "getprop (fst e) (mw_schema c1) (interface t) = Inr (JFun f)"
    and eng: "manual F kk1 (mw_schema c1) (mw_type c1) e = (Return u, kk2, (h2, req2, res2))"
    and nu: "\<not> truthy (user req2)"
    and ne: "\<not> truthy (unauthorizedError req2)"
  let ?msg = "''must set req.user if login/auth success or set req.unauthorizedError otherwise''"
  let ?h3 = "h2\<lparr>store := (store h2)(fresh h2 := new_UnauthorizedError ?msg (mw_schema c1) None),
                fresh := Suc (fresh h2)\<rparr>"
  let ?req3 = "req2\<lparr>unauthorizedError := JRef (fresh h2)\<rparr>"
  have u: "u = Undefined"
    using eng by (rule manual_returns)
  have isInterface:
    "list_ex (\<lambda>v. getprop (fst e) (mw_schema c1) v = getprop (fst e) (mw_schema c1) (mw_method c1))
       (map interface [Login, Auth])"
    using i m by (cases t) simp_all
  have inv: "invoke F kk1 c1 e = (Return Undefined, kk2, (?h3, ?req3, res2))"
    using isInterface eng nu ne u by (simp add: invoke_def Let_def js_or_def alloc_def)
  have thrown: "middleware_try F kk c e =
      (Throw (Value (JRef (fresh h2))), kk2, c1, (?h3, ?req3, res2))"
    using v d s m inv by (simp add: middleware_try_def)
  have "option kk2 = option kk"
    using deduce_schema_option [OF d] manual_option [OF eng] by simp
  then have t: "truthy (throwUnauthorizedError (option kk2))"
    using opt by simp
  have mw: "middleware F kk c e = (Next_with (JRef (fresh h2)), kk2, c1, (?h3, ?req3, res2))"
    using thrown t by (simp add: middleware_def new_UnauthorizedError_def)
  show ?thesis
    by (simp add: mw run_next_def run_req_def run_heap_def new_UnauthorizedError_def)
qed

text \<open>The request through the schema that does nothing.\<close>

theorem C7_witness:
  "truthy (throwUnauthorizedError (option (snd (deployment None [(''E'', 5)]))))
   \<and> valid (fst (deployment None [(''E'', 5)])) (snd (deployment None [(''E'', 5)]))
   \<and> run_next run_silent = Next_with (JRef 20)
   \<and> run_next run_silent \<noteq> Next_no_argument
   \<and> unauthorizedError (run_req run_silent) = JRef 20
   \<and> kind (store (run_heap run_silent) 20) =
       Unauthorized ''must set req.user if login/auth success or set req.unauthorizedError otherwise''
         (JRef 5) None"
proof -
  let ?h = "fst (deployment None [(''E'', 5)])" and ?kk = "snd (deployment None [(''E'', 5)])"
  let ?e = "(?h, req_named ''E'', ex_res)"
  let ?d = "deduce_schema ?kk login_middleware ?e"
  let ?c1 = "snd (snd ?d)"
  let ?m = "manual ex_F (fst (snd ?d)) (mw_schema ?c1) (mw_type ?c1) ?e"
  let ?req2 = "fst (snd (snd (snd ?m)))"
  have run: "run_silent = middleware ex_F ?kk login_middleware ?e"
    by (simp add: run_silent_def request_for_def case_prod_beta)
  have opt: "truthy (throwUnauthorizedError (option ?kk))"
    by code_simp
  have v: "valid (fst ?e) ?kk"
    by code_simp
  have d1: "fst ?d = Return Undefined"
    by code_simp
  have d: "?d = (Return Undefined, fst (snd ?d), ?c1)"
    using d1 by (simp add: prod_eq_iff)
  have s: "mw_schema ?c1 = JRef 5"
    by code_simp
  have ts: "truthy (mw_schema ?c1)"
    by (simp add: s)
  have g1: "getprop (fst ?e) (mw_schema ?c1) (mw_method ?c1) = Inr (JFun 5)"
    by code_simp
  have g2: "getprop (fst ?e) (mw_schema ?c1) (interface Login) = Inr (JFun 5)"
    by code_simp
  have m1: "fst ?m = Return Undefined"
    by code_simp
  have m: "?m = (Return Undefined, fst (snd ?m), (fst (snd (snd ?m)), ?req2, snd (snd (snd (snd ?m)))))"
    using m1 by (simp add: prod_eq_iff)
  have nu: "\<not> truthy (user ?req2)"
    by code_simp
  have ne: "\<not> truthy (unauthorizedError ?req2)"
    by code_simp
  have fr: "fresh (fst (snd (snd ?m))) = 20"
    by code_simp
  note t = C7_synthesized_error [OF opt v d ts g1 g2 m nu ne, unfolded fr, folded run,
      unfolded s]
  show ?thesis
    using t opt v by simp
qed

text \<open>
  C7, as claimed, fails. The required login method of schema \<^verbatim>\<open>'D'\<close> sets neither
  \<^verbatim>\<open>req.user\<close> nor \<^verbatim>\<open>req.unauthorizedError\<close> and ends the response. The engine throws
  its \<^verbatim>\<open>don't end res in schema\<close> error (object 20), the \<^verbatim>\<open>catch\<close> block finds an
  \<^verbatim>\<open>UnauthorizedError\<close> and stores nothing, and \<^verbatim>\<open>next\<close> is called with the
  \<^verbatim>\<open>undefined\<close> that \<^verbatim>\<open>req.unauthorizedError\<close> still is: no error with the claimed
  message is synthesized, and none is stored on the request.
\<close>

theorem C7_counterexample:
  "user (req_named ''D'') = Undefined
   \<and> unauthorizedError (req_named ''D'') = Undefined
   \<and> ex_F 4 (JRef 4) (fst (deployment None [(''D'', 4)]), req_named ''D'', ex_res) =
       (Return Undefined, fst (deployment None [(''D'', 4)]), req_named ''D'',
        ex_res\<lparr>headersSent := True\<rparr>)
   \<and> kind (store (run_heap run_ended) 20) = Unauthorized ''don't end res in schema'' (JRef 4) None
   \<and> user (run_req run_ended) = Undefined
   \<and> unauthorizedError (run_req run_ended) = Undefined
   \<and> run_next run_ended = Next_with Undefined"
  apply (intro conjI)
        apply (simp add: req_named_def ex_req_def)
       apply (simp add: req_named_def ex_req_def)
      apply (simp add: ex_F_def)
     apply code_simp
    apply code_simp
   apply code_simp
  apply code_simp
  done

end
